theory Spec2Isabelle
  imports Complex_Main "HOL-Library.Finite_Map"
begin

section \<open>Numbers, errors and arrays\<close>

text \<open>
  The emulators compute with numpy \<open>float64\<close> values. They are modelled as exact reals
  extended by the three special values numpy produces instead of raising: \<open>+inf\<close>,
  \<open>-inf\<close> and \<open>nan\<close>. Rounding and overflow of finite values are not modelled, and zero
  carries no sign (a zero divisor is taken as \<open>+0.0\<close>, which is what \<open>x - x\<close> gives).
  numpy's scalar division never raises on a zero divisor: it returns \<open>nan\<close> for \<open>0/0\<close>
  and an infinity otherwise (with a RuntimeWarning on stderr).
\<close>

datatype npfloat = Fin real | PInf | NInf | NaN

fun is_Fin :: "npfloat \<Rightarrow> bool" where
  "is_Fin (Fin x) = True"
| "is_Fin PInf = False"
| "is_Fin NInf = False"
| "is_Fin NaN = False"

fun val :: "npfloat \<Rightarrow> real" where
  "val (Fin x) = x"
| "val PInf = 0"
| "val NInf = 0"
| "val NaN = 0"

fun np_neg :: "npfloat \<Rightarrow> npfloat" where
  "np_neg (Fin x) = Fin (- x)"
| "np_neg PInf = NInf"
| "np_neg NInf = PInf"
| "np_neg NaN = NaN"

fun np_add :: "npfloat \<Rightarrow> npfloat \<Rightarrow> npfloat" where
  "np_add (Fin x) (Fin y) = Fin (x + y)"
| "np_add NaN b = NaN"
| "np_add a NaN = NaN"
| "np_add PInf NInf = NaN"
| "np_add NInf PInf = NaN"
| "np_add PInf b = PInf"
| "np_add NInf b = NInf"
| "np_add a PInf = PInf"
| "np_add a NInf = NInf"

definition np_sub :: "npfloat \<Rightarrow> npfloat \<Rightarrow> npfloat" where
  "np_sub a b = np_add a (np_neg b)"

fun np_mul :: "npfloat \<Rightarrow> npfloat \<Rightarrow> npfloat" where
  "np_mul (Fin x) (Fin y) = Fin (x * y)"
| "np_mul NaN b = NaN"
| "np_mul a NaN = NaN"
| "np_mul PInf (Fin y) = (if y = 0 then NaN else if 0 < y then PInf else NInf)"
| "np_mul NInf (Fin y) = (if y = 0 then NaN else if 0 < y then NInf else PInf)"
| "np_mul (Fin x) PInf = (if x = 0 then NaN else if 0 < x then PInf else NInf)"
| "np_mul (Fin x) NInf = (if x = 0 then NaN else if 0 < x then NInf else PInf)"
| "np_mul PInf PInf = PInf"
| "np_mul PInf NInf = NInf"
| "np_mul NInf PInf = NInf"
| "np_mul NInf NInf = PInf"

fun np_div :: "npfloat \<Rightarrow> npfloat \<Rightarrow> npfloat" where
  "np_div (Fin x) (Fin y) =
     (if y \<noteq> 0 then Fin (x / y)
      else if x = 0 then NaN else if 0 < x then PInf else NInf)"
| "np_div NaN b = NaN"
| "np_div a NaN = NaN"
| "np_div (Fin x) PInf = Fin 0"
| "np_div (Fin x) NInf = Fin 0"
| "np_div PInf (Fin y) = (if 0 \<le> y then PInf else NInf)"
| "np_div NInf (Fin y) = (if 0 \<le> y then NInf else PInf)"
| "np_div PInf PInf = NaN"
| "np_div PInf NInf = NaN"
| "np_div NInf PInf = NaN"
| "np_div NInf NInf = NaN"

fun np_sqrt :: "npfloat \<Rightarrow> npfloat" where
  "np_sqrt (Fin x) = (if 0 \<le> x then Fin (sqrt x) else NaN)"
| "np_sqrt PInf = PInf"
| "np_sqrt NInf = NaN"
| "np_sqrt NaN = NaN"

text \<open>Comparison \<open>a < b\<close>; every comparison with \<open>nan\<close> is false.\<close>

fun np_lt :: "npfloat \<Rightarrow> npfloat \<Rightarrow> bool" where
  "np_lt (Fin x) (Fin y) = (x < y)"
| "np_lt NaN b = False"
| "np_lt a NaN = False"
| "np_lt PInf b = False"
| "np_lt a NInf = False"
| "np_lt NInf b = True"
| "np_lt a PInf = True"

definition np_gt :: "npfloat \<Rightarrow> npfloat \<Rightarrow> bool" where
  "np_gt a b = np_lt b a"

text \<open>Equality \<open>a == b\<close> of two floats: \<open>nan\<close> equals nothing, itself included.\<close>

definition np_eq :: "npfloat \<Rightarrow> npfloat \<Rightarrow> bool" where
  "np_eq a b = (a \<noteq> NaN \<and> a = b)"

text \<open>The Python exceptions the modelled code can raise.\<close>

datatype py_error =
    KeyError string
  | IndexError
  | ValueError
  | FileNotFoundError string
  | JSONDecodeError string

text \<open>
  A one-dimensional array is a list; a two-dimensional array is the list of its rows. A
  query model is a dictionary from parameter names to values; \<open>model[par]\<close> raises
  KeyError on a missing key.
\<close>

type_synonym ndarray1 = "npfloat list"
type_synonym ndarray2 = "npfloat list list"
type_synonym model = "string \<rightharpoonup> npfloat"
type_synonym limits = "(npfloat \<times> npfloat) list"

definition getitem :: "model \<Rightarrow> string \<Rightarrow> py_error + npfloat" where
  "getitem m par = (case m par of None \<Rightarrow> Inl (KeyError par) | Some v \<Rightarrow> Inr v)"

text \<open>The column \<open>paramGrid[:,aa]\<close> of a two-dimensional array.\<close>

definition column :: "ndarray2 \<Rightarrow> nat \<Rightarrow> ndarray1" where
  "column g aa = map (\<lambda>row. row ! aa) g"


section \<open>Parameter rescaling (GPEmulator)\<close>

text \<open>
  Python's builtin \<open>min\<close> and \<open>max\<close> over an iterable: the first item is the candidate,
  a later item replaces it when it compares strictly smaller (larger); an empty iterable
  raises ValueError.
\<close>

fun py_min :: "ndarray1 \<Rightarrow> py_error + npfloat" where
  "py_min [] = Inl ValueError"
| "py_min (x # xs) = Inr (foldl (\<lambda>m y. if np_lt y m then y else m) x xs)"

fun py_max :: "ndarray1 \<Rightarrow> py_error + npfloat" where
  "py_max [] = Inl ValueError"
| "py_max (x # xs) = Inr (foldl (\<lambda>m y. if np_gt y m then y else m) x xs)"

text \<open>
  \<open>_get_param_limits\<close>: one (min, max) row per column of the grid. The loop over the
  columns \<open>aa = 0, ..., ncols - 1\<close> is \<open>param_limits_from\<close>, counting the columns still
  to do. The grid has at least one row (the constructor has read \<open>arxiv.data[0]\<close>
  before); its column count is that of its first row.
\<close>

fun param_limits_from :: "ndarray2 \<Rightarrow> nat \<Rightarrow> nat \<Rightarrow> py_error + limits" where
  "param_limits_from g aa 0 = Inr []"
| "param_limits_from g aa (Suc n) =
     (case py_min (column g aa) of
        Inl e \<Rightarrow> Inl e
      | Inr lo \<Rightarrow>
          (case py_max (column g aa) of
             Inl e \<Rightarrow> Inl e
           | Inr hi \<Rightarrow>
               (case param_limits_from g (Suc aa) n of
                  Inl e \<Rightarrow> Inl e
                | Inr rest \<Rightarrow> Inr ((lo, hi) # rest))))"

definition get_param_limits :: "ndarray2 \<Rightarrow> py_error + limits" where
  "get_param_limits paramGrid =
     (case paramGrid of
        [] \<Rightarrow> Inl ValueError
      | row # _ \<Rightarrow> param_limits_from paramGrid 0 (length row))"

text \<open>
  \<open>_rescale_params\<close>: entry \<open>aa\<close> of the parameter vector becomes
  \<open>(params[aa] - paramLimits[aa,0]) / (paramLimits[aa,1] - paramLimits[aa,0])\<close>.
  Reading a row of \<open>paramLimits\<close> that does not exist raises IndexError. There is no
  test of the divisor.
\<close>

definition rescale1 :: "npfloat \<Rightarrow> npfloat \<times> npfloat \<Rightarrow> npfloat" where
  "rescale1 x lh = np_div (np_sub x (fst lh)) (np_sub (snd lh) (fst lh))"

fun rescale_params :: "ndarray1 \<Rightarrow> limits \<Rightarrow> py_error + ndarray1" where
  "rescale_params [] paramLimits = Inr []"
| "rescale_params (p # params) [] = Inl IndexError"
| "rescale_params (p # params) (lh # paramLimits) =
     (case rescale_params params paramLimits of
        Inl e \<Rightarrow> Inl e
      | Inr rest \<Rightarrow> Inr (rescale1 p lh # rest))"

text \<open>The loop of \<open>_build_interp\<close> that rescales the grid row by row.\<close>

fun rescale_grid :: "ndarray2 \<Rightarrow> limits \<Rightarrow> py_error + ndarray2" where
  "rescale_grid [] paramLimits = Inr []"
| "rescale_grid (row # rows) paramLimits =
     (case rescale_params row paramLimits of
        Inl e \<Rightarrow> Inl e
      | Inr r \<Rightarrow>
          (case rescale_grid rows paramLimits of
             Inl e \<Rightarrow> Inl e
           | Inr rs \<Rightarrow> Inr (r # rs)))"

text \<open>
  The loop shared, as copied code, by \<open>return_unit_call\<close>, \<open>check_in_hull\<close>,
  \<open>predict\<close> and \<open>get_nearest_distance\<close>: look each parameter of \<open>paramList\<close> up by
  name in the model and rescale it with the limits row of the same index.
\<close>

fun rescale_model :: "string list \<Rightarrow> limits \<Rightarrow> model \<Rightarrow> py_error + ndarray1" where
  "rescale_model [] paramLimits m = Inr []"
| "rescale_model (par # pars) paramLimits m =
     (case getitem m par of
        Inl e \<Rightarrow> Inl e
      | Inr v \<Rightarrow>
          (case paramLimits of
             [] \<Rightarrow> Inl IndexError
           | lh # lhs \<Rightarrow>
               (case rescale_model pars lhs m of
                  Inl e \<Rightarrow> Inl e
                | Inr rest \<Rightarrow> Inr (rescale1 v lh # rest))))"

section \<open>The emulator object and its construction\<close>

text \<open>
  What the code hands to \<open>GPy.models.GPRegression\<close>: training inputs and targets, the
  input dimension and ARD flag of the two kernels, the noise variance; and the
  hyperparameter vector \<open>param_array\<close> that saving writes and loading overwrites. GPy's
  initial hyperparameters are not modelled: the vector starts empty.
\<close>

record gp_regression =
  gp_X :: ndarray2
  gp_Y :: ndarray2
  gp_input_dim :: nat
  gp_ARD :: bool
  gp_noise_var :: npfloat
  gp_param_array :: ndarray1

text \<open>
  The attributes of a \<open>GPEmulator\<close>. \<open>hull_tri\<close> (the attribute \<open>hull\<close>) holds the points the Delaunay
  triangulation was built from. \<open>max_arxiv_size\<close> is \<open>None\<close> or a number.
\<close>

record emulator =
  basedir :: string
  emu_type :: string
  emu_noise :: real
  max_arxiv_size :: "nat option"
  drop_tau_rescalings :: bool
  drop_temp_rescalings :: bool
  keep_every_other_rescaling :: bool
  undersample_z :: int
  verbose :: bool
  asymmetric_kernel :: bool
  z_max :: real
  paramLimits :: limits
  crossval :: bool
  custom_arxiv :: bool
  k_bin :: int
  paramList :: "string list"
  X_param_grid :: ndarray2
  scalefactors :: ndarray1
  gp :: gp_regression
  trained :: bool
  checkHulls :: bool
  hull_tri :: ndarray2

text \<open>
  The library calls whose results the code only passes on: the GP posterior
  \<open>gp.predict\<close> at one point (the row of means and the row of variances it returns, or
  an exception), the hyperparameter optimisation \<open>gp.optimize\<close>, and
  \<open>Delaunay.find_simplex\<close> at one point (negative outside the triangulation).
\<close>

record externals =
  gp_predict :: "gp_regression \<Rightarrow> ndarray1 \<Rightarrow> py_error + (ndarray1 \<times> ndarray1)"
  gp_optimize :: "gp_regression \<Rightarrow> gp_regression"
  find_simplex :: "ndarray2 \<Rightarrow> ndarray1 \<Rightarrow> int"

text \<open>What \<open>print\<close> writes: a line of text, possibly followed by a model or an array.\<close>

datatype printed =
    Print string
  | PrintModel string model
  | PrintArray string ndarray1

text \<open>
  \<open>np.median\<close> of one column: \<open>nan\<close> when the column is empty or holds a \<open>nan\<close>,
  else the middle element of the sorted column, or the mean of the two middle ones.
\<close>

fun np_insort :: "npfloat \<Rightarrow> ndarray1 \<Rightarrow> ndarray1" where
  "np_insort x [] = [x]"
| "np_insort x (y # ys) = (if np_lt y x then y # np_insort x ys else x # y # ys)"

definition np_sort :: "ndarray1 \<Rightarrow> ndarray1" where
  "np_sort xs = foldr np_insort xs []"

definition np_median :: "ndarray1 \<Rightarrow> npfloat" where
  "np_median xs =
     (if xs = [] \<or> NaN \<in> set xs then NaN
      else if odd (length xs) then np_sort xs ! (length xs div 2)
      else np_div (np_add (np_sort xs ! (length xs div 2 - 1)) (np_sort xs ! (length xs div 2)))
             (Fin 2))"

text \<open>\<open>np.median(Ypoints, axis=0)\<close>: one median per column.\<close>

definition median_axis0 :: "ndarray2 \<Rightarrow> ndarray1" where
  "median_axis0 Y =
     (case Y of [] \<Rightarrow> [] | row # _ \<Rightarrow> map (\<lambda>j. np_median (column Y j)) [0..<length row])"

text \<open>
  numpy broadcasting of a binary operation over two one-dimensional operands: equal
  lengths go elementwise, an operand of length one is repeated, anything else raises
  ValueError. (A one-row matrix combined with a vector behaves the same way.)
\<close>

definition broadcast2 ::
  "(npfloat \<Rightarrow> npfloat \<Rightarrow> npfloat) \<Rightarrow> ndarray1 \<Rightarrow> ndarray1 \<Rightarrow> py_error + ndarray1" where
  "broadcast2 f xs ys =
     (if length xs = length ys then Inr (map2 f xs ys)
      else if length xs = 1 then Inr (map (f (hd xs)) ys)
      else if length ys = 1 then Inr (map (\<lambda>x. f x (hd ys)) xs)
      else Inl ValueError)"

text \<open>\<open>(Ypoints / self.scalefactors) - 1.\<close>, row by row.\<close>

fun normalise :: "ndarray2 \<Rightarrow> ndarray1 \<Rightarrow> py_error + ndarray2" where
  "normalise [] sf = Inr []"
| "normalise (row # rows) sf =
     (case broadcast2 np_div row sf of
        Inl e \<Rightarrow> Inl e
      | Inr r \<Rightarrow>
          (case normalise rows sf of
             Inl e \<Rightarrow> Inl e
           | Inr rs \<Rightarrow> Inr (map (\<lambda>v. np_sub v (Fin 1)) r # rs)))"

text \<open>
  \<open>_build_interp\<close>, from the parameter grid and the targets that
  \<open>_buildTrainingSets\<close> has read from the archive. \<open>limits_arg\<close> is the constructor's
  \<open>paramLimits\<close> argument: when it is \<open>None\<close> the limits are taken from the grid. The
  emulator gets the rescaled grid, the limits, the scale factors and the GP object
  built on the rescaled grid and the normalised targets.
\<close>

definition build_interp ::
  "emulator \<Rightarrow> limits option \<Rightarrow> ndarray2 \<Rightarrow> ndarray2 \<Rightarrow> py_error + emulator" where
  "build_interp e limits_arg X Ypoints =
     (case (case limits_arg of None \<Rightarrow> get_param_limits X | Some l \<Rightarrow> Inr l) of
        Inl er \<Rightarrow> Inl er
      | Inr lims \<Rightarrow>
          (case rescale_grid X lims of
             Inl er \<Rightarrow> Inl er
           | Inr X' \<Rightarrow>
               (case normalise Ypoints (median_axis0 Ypoints) of
                  Inl er \<Rightarrow> Inl er
                | Inr normspectra \<Rightarrow>
                    Inr (e\<lparr>X_param_grid := X',
                           paramLimits := lims,
                           scalefactors := median_axis0 Ypoints,
                           gp := \<lparr>gp_X = X', gp_Y = normspectra,
                                   gp_input_dim = length (paramList e),
                                   gp_ARD = asymmetric_kernel e,
                                   gp_noise_var = Fin (emu_noise e),
                                   gp_param_array = []\<rparr>\<rparr>))))"

text \<open>\<open>train\<close>: optimise the hyperparameters and set the trained flag.\<close>

definition train :: "externals \<Rightarrow> emulator \<Rightarrow> emulator \<times> printed list" where
  "train ext e =
     (e\<lparr>gp := gp_optimize ext (gp e), trained := True\<rparr>,
      [PrintArray ''Training GP on %d points'' [Fin (real (length (X_param_grid e)))],
       Print ''Optimised''])"

section \<open>Queries (GPEmulator)\<close>

definition return_unit_call :: "emulator \<Rightarrow> model \<Rightarrow> py_error + ndarray1" where
  "return_unit_call e m = rescale_model (paramList e) (paramLimits e) m"

definition check_in_hull :: "externals \<Rightarrow> emulator \<Rightarrow> model \<Rightarrow> py_error + bool" where
  "check_in_hull ext e m =
     (case rescale_model (paramList e) (paramLimits e) m of
        Inl er \<Rightarrow> Inl er
      | Inr param \<Rightarrow> Inr (find_simplex ext (hull_tri e) param < 0))"

text \<open>
  \<open>predict\<close> returns the pair (values, uncertainties), or \<open>None\<close> when the emulator is
  not trained. The emulator is returned as well, to make explicit that no attribute is
  assigned. \<open>np.isin(param, X_param_grid)\<close> marks the entries of \<open>param\<close> that occur
  anywhere in the grid.
\<close>

definition predict ::
  "externals \<Rightarrow> emulator \<Rightarrow> model \<Rightarrow>
     py_error + ((ndarray1 \<times> ndarray1) option \<times> emulator \<times> printed list)" where
  "predict ext e m =
     (if \<not> trained e then
        Inr (None, e, [Print ''Emulator not trained, cannot make a prediction''])
      else
        (case rescale_model (paramList e) (paramLimits e) m of
           Inl er \<Rightarrow> Inl er
         | Inr param \<Rightarrow>
             (let out1 = (if checkHulls e \<and> find_simplex ext (hull_tri e) param < 0
                          then [PrintModel ''Model is outside convex hull:'' m] else []);
                  isin = filter (\<lambda>p. list_ex (np_eq p) (concat (X_param_grid e))) param;
                  out2 = (if crossval e \<and> length isin = length param
                          then [Print ''Emulator call is inside training set!!!''] else [])
              in (case gp_predict ext (gp e) param of
                    Inl er \<Rightarrow> Inl er
                  | Inr (pred, err) \<Rightarrow>
                      (case broadcast2 np_mul (map (\<lambda>v. np_add v (Fin 1)) pred)
                              (scalefactors e) of
                         Inl er \<Rightarrow> Inl er
                       | Inr vals \<Rightarrow>
                           (case broadcast2 np_mul (map np_sqrt err) (scalefactors e) of
                              Inl er \<Rightarrow> Inl er
                            | Inr uncs \<Rightarrow> Inr (Some (vals, uncs), e, out1 @ out2)))))))"

text \<open>
  \<open>get_nearest_distance\<close>. \<open>euclid\<close> is
  \<open>np.sqrt(np.sum((training_point - param)**2))\<close>; the loop keeps the running minimum,
  which starts at 99.99 and is replaced only by a strictly smaller distance.
\<close>

definition euclid :: "ndarray1 \<Rightarrow> ndarray1 \<Rightarrow> py_error + npfloat" where
  "euclid training_point param =
     (case broadcast2 np_sub training_point param of
        Inl er \<Rightarrow> Inl er
      | Inr d \<Rightarrow> Inr (np_sqrt (foldl np_add (Fin 0) (map (\<lambda>v. np_mul v v) d))))"

fun nearest_loop :: "ndarray2 \<Rightarrow> ndarray1 \<Rightarrow> npfloat \<Rightarrow> py_error + npfloat" where
  "nearest_loop [] param shortest_distance = Inr shortest_distance"
| "nearest_loop (training_point # rest) param shortest_distance =
     (case euclid training_point param of
        Inl er \<Rightarrow> Inl er
      | Inr new_distance \<Rightarrow>
          nearest_loop rest param
            (if np_lt new_distance shortest_distance then new_distance
             else shortest_distance))"

definition get_nearest_distance :: "emulator \<Rightarrow> model \<Rightarrow> py_error + npfloat" where
  "get_nearest_distance e m =
     (case rescale_model (paramList e) (paramLimits e) m of
        Inl er \<Rightarrow> Inl er
      | Inr param \<Rightarrow> nearest_loop (X_param_grid e) param (Fin (9999 / 100)))"

text \<open>
  The Euclidean distance of two real vectors of the same length: the reference that the
  results of \<open>get_nearest_distance\<close> are compared with.
\<close>

definition euclid_dist :: "real list \<Rightarrow> real list \<Rightarrow> real" where
  "euclid_dist r q = sqrt (\<Sum>i<length q. (r ! i - q ! i)\<^sup>2)"

section \<open>Saving and loading (GPEmulator)\<close>

text \<open>
  The dictionary \<open>initParams\<close> that both \<open>saveEmulator\<close> and \<open>loadEmulator\<close> build
  from the emulator's attributes. \<open>json.dump\<close> followed by \<open>json.load\<close> gives back a
  dictionary equal to the one dumped (integers, floats, booleans, strings and lists of
  strings round-trip), so a saved \<open>.json\<close> file is modelled by the record it stores and
  Python's \<open>fileInitDict == initParams\<close> by equality of records.
\<close>

record init_params =
  ip_k_bin :: int
  ip_emu_type :: string
  ip_emu_noise :: real
  ip_drop_tau_rescalings :: bool
  ip_drop_temp_rescalings :: bool
  ip_keep_every_other_rescaling :: bool
  ip_undersample_z :: int
  ip_paramList :: "string list"
  ip_asymmetric_kernel :: bool
  ip_z_max :: real

definition initParams_of :: "emulator \<Rightarrow> init_params" where
  "initParams_of e =
     \<lparr>ip_k_bin = k_bin e,
      ip_emu_type = emu_type e,
      ip_emu_noise = emu_noise e,
      ip_drop_tau_rescalings = drop_tau_rescalings e,
      ip_drop_temp_rescalings = drop_temp_rescalings e,
      ip_keep_every_other_rescaling = keep_every_other_rescaling e,
      ip_undersample_z = undersample_z e,
      ip_paramList = paramList e,
      ip_asymmetric_kernel = asymmetric_kernel e,
      ip_z_max = z_max e\<rparr>"

text \<open>
  The files under \<open>basedir\<close>: a finite map from path names to contents, a content being a
  fingerprint written by \<open>json.dump\<close> or an array written by \<open>np.save\<close>. Reading a file
  with the wrong reader raises.
\<close>

datatype file_content = JsonFile init_params | NpyFile ndarray1

type_synonym filesystem = "(string, file_content) fmap"

definition isfile :: "filesystem \<Rightarrow> string \<Rightarrow> bool" where
  "isfile fs path = (fmlookup fs path \<noteq> None)"

definition json_load :: "filesystem \<Rightarrow> string \<Rightarrow> py_error + init_params" where
  "json_load fs path =
     (case fmlookup fs path of
        None \<Rightarrow> Inl (FileNotFoundError path)
      | Some (JsonFile d) \<Rightarrow> Inr d
      | Some (NpyFile a) \<Rightarrow> Inl (JSONDecodeError path))"

definition np_load :: "filesystem \<Rightarrow> string \<Rightarrow> py_error + ndarray1" where
  "np_load fs path =
     (case fmlookup fs path of
        None \<Rightarrow> Inl (FileNotFoundError path)
      | Some (NpyFile a) \<Rightarrow> Inr a
      | Some (JsonFile d) \<Rightarrow> Inl ValueError)"

text \<open>Python's \<open>str\<close> of a non-negative integer: its decimal digits.\<close>

definition digit_char :: "nat \<Rightarrow> char" where
  "digit_char d = ''0123456789'' ! d"

definition digit_val :: "char \<Rightarrow> nat" where
  "digit_val c = length (takeWhile (\<lambda>x. x \<noteq> c) ''0123456789'')"

function str :: "nat \<Rightarrow> string" where
  "str n = (if n < 10 then [digit_char n] else str (n div 10) @ [digit_char (n mod 10)])"
  by pat_completeness auto
termination
  by (relation "measure id") auto

declare str.simps [simp del]

definition parse_nat :: "string \<Rightarrow> nat" where
  "parse_nat s = foldl (\<lambda>a c. 10 * a + digit_val c) 0 s"

definition json_name :: "string \<Rightarrow> nat \<Rightarrow> string" where
  "json_name saveString aa = saveString @ str aa @ ''.json''"

definition npy_name :: "string \<Rightarrow> nat \<Rightarrow> string" where
  "npy_name saveString aa = saveString @ str aa @ ''.npy''"

lemma digit_val_digit_char: "d < 10 \<Longrightarrow> digit_val (digit_char d) = d"
proof -
  assume "d < 10"
  then have "d \<in> {0, 1, 2, 3, 4, 5, 6, 7, 8, 9}" by auto
  then show ?thesis
    by (auto simp: digit_val_def digit_char_def)
qed

lemma parse_nat_snoc: "parse_nat (s @ [c]) = 10 * parse_nat s + digit_val c"
  by (simp add: parse_nat_def)

lemma parse_nat_str: "parse_nat (str n) = n"
proof (induction n rule: str.induct)
  case (1 n)
  show ?case
  proof (cases "n < 10")
    case True
    then show ?thesis
      by (subst str.simps) (simp add: parse_nat_def digit_val_digit_char)
  next
    case False
    then have "parse_nat (str (n div 10)) = n div 10" using 1 by simp
    with False show ?thesis
      by (subst str.simps) (simp add: parse_nat_snoc digit_val_digit_char)
  qed
qed

lemma str_inject: "str a = str b \<longleftrightarrow> a = b"
  by (metis parse_nat_str)

lemma json_name_inject: "json_name s a = json_name s b \<longleftrightarrow> a = b"
  by (simp add: json_name_def str_inject)

lemma json_name_neq_npy_name: "json_name s a \<noteq> npy_name s b"
proof
  assume "json_name s a = npy_name s b"
  then have "last (json_name s a) = last (npy_name s b)" by simp
  then show False by (simp add: json_name_def npy_name_def)
qed

lemma finite_saved_indices: "finite {k. json_name s k |\<in>| fmdom fs}"
proof -
  have "{k. json_name s k |\<in>| fmdom fs} = json_name s -` fset (fmdom fs)"
    by auto
  moreover have "inj (json_name s)"
    by (simp add: inj_on_def json_name_inject)
  ultimately show ?thesis
    by (simp add: finite_vimageI)
qed

text \<open>
  The loop that \<open>saveEmulator\<close> and \<open>loadEmulator\<close> both run, from \<open>aa = 1\<close>: while
  \<open>saveString + str(aa) + ".json"\<close> is a file, read it; stop at the first one equal to
  \<open>initParams\<close>, else go on with \<open>aa + 1\<close>. It ends at a matching file or at the first
  index without a file.
\<close>

datatype scan_result = Match nat | NoFile nat

function scan_saved ::
  "filesystem \<Rightarrow> string \<Rightarrow> init_params \<Rightarrow> nat \<Rightarrow> py_error + scan_result" where
  "scan_saved fs saveString initParams aa =
     (if isfile fs (json_name saveString aa) then
        (case json_load fs (json_name saveString aa) of
           Inl er \<Rightarrow> Inl er
         | Inr fileInitDict \<Rightarrow>
             if fileInitDict = initParams then Inr (Match aa)
             else scan_saved fs saveString initParams (aa + 1))
      else Inr (NoFile aa))"
  by pat_completeness auto
termination
proof (relation "measure (\<lambda>(fs, s, p, aa). card {k. aa \<le> k \<and> json_name s k |\<in>| fmdom fs})")
  show "wf (measure (\<lambda>(fs, s, p, aa). card {k. aa \<le> k \<and> json_name s k |\<in>| fmdom fs}))"
    by simp
next
  fix fs :: filesystem and saveString :: string and initParams :: init_params
    and aa :: nat and x2 :: init_params
  assume f: "isfile fs (json_name saveString aa)"
  let ?A = "{k. aa \<le> k \<and> json_name saveString k |\<in>| fmdom fs}"
  let ?B = "{k. aa + 1 \<le> k \<and> json_name saveString k |\<in>| fmdom fs}"
  have fin: "finite ?A"
    by (rule finite_subset [OF _ finite_saved_indices [of saveString fs]]) auto
  have "aa \<in> ?A" using f by (auto simp: isfile_def intro: fmdomI)
  moreover have "aa \<notin> ?B" by simp
  moreover have "?B \<subseteq> ?A" by auto
  ultimately have "?B \<subset> ?A" by blast
  then have "card ?B < card ?A" using fin by (rule psubset_card_mono [rotated])
  then show "((fs, saveString, initParams, aa + 1), (fs, saveString, initParams, aa))
      \<in> measure (\<lambda>(fs, s, p, aa). card {k. aa \<le> k \<and> json_name s k |\<in>| fmdom fs})"
    by simp
qed

declare scan_saved.simps [simp del]

text \<open>\<open>self.custom_arxiv or self.max_arxiv_size\<close>: \<open>None\<close> and 0 count as false.\<close>

definition nonstandard_arxiv :: "emulator \<Rightarrow> bool" where
  "nonstandard_arxiv e =
     (custom_arxiv e \<or> (case max_arxiv_size e of None \<Rightarrow> False | Some n \<Rightarrow> n \<noteq> 0))"

text \<open>\<open>saveString = self.basedir + "/saved_emulator_"\<close>, the common stem of the saved files.\<close>

definition saveString_of :: "emulator \<Rightarrow> string" where
  "saveString_of e = basedir e @ ''/saved_emulator_''"

definition saveEmulator ::
  "emulator \<Rightarrow> filesystem \<Rightarrow> py_error + (filesystem \<times> printed list)" where
  "saveEmulator e fs =
     (if nonstandard_arxiv e then
        Inr (fs, [Print ''Cannot save emulators trained on custom arxivs''])
      else if \<not> trained e then
        Inr (fs, [Print ''Cannot save an emulator that is not trained''])
      else
        (case scan_saved fs (saveString_of e) (initParams_of e) 1 of
           Inl er \<Rightarrow> Inl er
         | Inr (Match aa) \<Rightarrow>
             Inr (fs, if verbose e then [Print ''This emulator is already saved.''] else [])
         | Inr (NoFile aa) \<Rightarrow>
             Inr (fmupd (npy_name (saveString_of e) aa)
                    (NpyFile (gp_param_array (gp e)))
                    (fmupd (json_name (saveString_of e) aa)
                       (JsonFile (initParams_of e)) fs),
                  if verbose e
                  then [Print (''Model saved as '' @ npy_name (saveString_of e) aa)]
                  else [])))"

definition loadEmulator ::
  "emulator \<Rightarrow> filesystem \<Rightarrow> py_error + (emulator \<times> printed list)" where
  "loadEmulator e fs =
     (if nonstandard_arxiv e then
        Inr (e, [Print ''Cannot load emulators with non-standard training data''])
      else if trained e then
        Inr (e, [Print ''Cannot load an emulator after training''])
      else
        (case scan_saved fs (saveString_of e) (initParams_of e) 1 of
           Inl er \<Rightarrow> Inl er
         | Inr (Match aa) \<Rightarrow>
             (case np_load fs (npy_name (saveString_of e) aa) of
                Inl er \<Rightarrow> Inl er
              | Inr arr \<Rightarrow>
                  Inr (e\<lparr>gp := (gp e)\<lparr>gp_param_array := arr\<rparr>, trained := True\<rparr>,
                       if verbose e
                       then [Print (''Loading emulator from '' @
                                     npy_name (saveString_of e) aa)]
                       else []))
         | Inr (NoFile aa) \<Rightarrow>
             Inr (e, if verbose e
                     then [Print ''Could not find a matching emulator to load''] else [])))"

section \<open>LinearEmulator\<close>

text \<open>
  A \<open>PolyP1D\<close> object as far as the emulator reads it: the fitted coefficients and the
  lower end of the fit window. The attributes of a \<open>LinearEmulator\<close>: the fits of the
  archive entries (\<open>entry['fit_p1d']\<close>, in archive order) and one interpolator per
  polynomial coefficient, each a function of the query point.
\<close>

record poly_p1d =
  lnP_fit :: ndarray1
  kmin_Mpc :: npfloat

record linear_emulator =
  le_verbose :: bool
  le_arxiv_fits :: "poly_p1d list"
  linterps :: "(ndarray1 \<Rightarrow> npfloat) list"

text \<open>\<open>_point_from_model\<close>: the seven parameters, looked up by name in a fixed order.\<close>

fun lookup_all :: "model \<Rightarrow> string list \<Rightarrow> py_error + ndarray1" where
  "lookup_all m [] = Inr []"
| "lookup_all m (par # pars) =
     (case getitem m par of
        Inl e \<Rightarrow> Inl e
      | Inr v \<Rightarrow>
          (case lookup_all m pars of
             Inl e \<Rightarrow> Inl e
           | Inr vs \<Rightarrow> Inr (v # vs)))"

definition point_keys :: "string list" where
  "point_keys = [''Delta2_p'', ''n_p'', ''alpha_p'', ''f_p'', ''mF'', ''sigT_Mpc'', ''gamma'']"

definition point_from_model :: "model \<Rightarrow> py_error + ndarray1" where
  "point_from_model m = lookup_all m point_keys"

text \<open>
  The coefficient loop of \<open>emulate_p1d_Mpc\<close>:
  \<open>for i in range(Npar): coeffs[Npar-i-1] = self.linterps[i](point)\<close>, run on the array
  \<open>np.empty(Npar)\<close>, whose initial content is whatever the memory held.
\<close>

definition fill_coeffs ::
  "(ndarray1 \<Rightarrow> npfloat) list \<Rightarrow> ndarray1 \<Rightarrow> ndarray1 \<Rightarrow> ndarray1" where
  "fill_coeffs interps point coeffs =
     foldl (\<lambda>c i. c[length interps - i - 1 := (interps ! i) point]) coeffs
       [0..<length interps]"

text \<open>
  \<open>LinearEmulator.emulate_p1d_Mpc\<close>. The module \<open>poly_p1d\<close> is not part of the sources
  read here, so the evaluation \<open>PolyP1D.P_Mpc\<close> of a reconstruction object at the
  wavenumbers is the parameter \<open>P_Mpc\<close>. \<open>garbage i\<close> is what entry \<open>i\<close> of the
  uninitialised array \<open>np.empty(Npar)\<close> holds.
\<close>

definition emulate_p1d_Mpc ::
  "(poly_p1d \<Rightarrow> ndarray1 \<Rightarrow> ndarray1) \<Rightarrow> (nat \<Rightarrow> npfloat) \<Rightarrow> linear_emulator \<Rightarrow> model \<Rightarrow>
     ndarray1 \<Rightarrow>
     py_error + (ndarray1 \<times> printed list)" where
  "emulate_p1d_Mpc P_Mpc garbage le m k_Mpc =
     (case point_from_model m of
        Inl e \<Rightarrow> Inl e
      | Inr point \<Rightarrow>
          (let coeffs = fill_coeffs (linterps le) point (map garbage [0..<length (linterps le)])
           in (case le_arxiv_fits le of
                 [] \<Rightarrow> Inl IndexError
               | fit0 # _ \<Rightarrow>
                   Inr (P_Mpc \<lparr>lnP_fit = coeffs, kmin_Mpc = kmin_Mpc fit0\<rparr> k_Mpc,
                        if le_verbose le
                        then [PrintModel ''asked to emulate model'' m,
                              PrintArray ''evaluate point'' point,
                              PrintArray ''got coefficients'' coeffs,
                              Print ''got poly_p1d'']
                        else []))))"

section \<open>Example objects\<close>

text \<open>
  A small emulator on two parameters and three training records, as the constructor
  leaves it for the raw grid \<open>[[1, 10], [2, 30], [3, 20]]\<close> and the targets
  \<open>[[2, 4], [4, 8], [6, 12]]\<close>; stand-ins for the library calls; and query models.
\<close>

definition demo_grid :: ndarray2 where
  "demo_grid = [[Fin 0, Fin 0], [Fin (1/2), Fin 1], [Fin 1, Fin (1/2)]]"

definition raw_grid :: ndarray2 where
  "raw_grid = [[Fin 1, Fin 10], [Fin 2, Fin 30], [Fin 3, Fin 20]]"

definition raw_targets :: ndarray2 where
  "raw_targets = [[Fin 2, Fin 4], [Fin 4, Fin 8], [Fin 6, Fin 12]]"

definition demo_gp :: gp_regression where
  "demo_gp =
     \<lparr>gp_X = demo_grid,
      gp_Y = [[Fin (- 1/2), Fin (- 1/2)], [Fin 0, Fin 0], [Fin (1/2), Fin (1/2)]],
      gp_input_dim = 2, gp_ARD = False, gp_noise_var = Fin (1/1000),
      gp_param_array = [Fin 1, Fin 2, Fin 3, Fin 4]\<rparr>"

definition demo_emulator :: emulator where
  "demo_emulator =
     \<lparr>basedir = ''sims'', emu_type = ''k_bin'', emu_noise = 1/1000,
      max_arxiv_size = None, drop_tau_rescalings = True, drop_temp_rescalings = False,
      keep_every_other_rescaling = False, undersample_z = 1, verbose = True,
      asymmetric_kernel = False, z_max = 5,
      paramLimits = [(Fin 1, Fin 3), (Fin 10, Fin 30)], crossval = False,
      custom_arxiv = False, k_bin = 2, paramList = [''mF'', ''Delta2_p''],
      X_param_grid = demo_grid, scalefactors = [Fin 4, Fin 8], gp = demo_gp,
      trained = True, checkHulls = True, hull_tri = demo_grid\<rparr>"

definition demo_externals :: externals where
  "demo_externals =
     \<lparr>gp_predict = (\<lambda>g p. Inr ([Fin 0, Fin (1/2)], [Fin 4])),
      gp_optimize = (\<lambda>g. g),
      find_simplex = (\<lambda>pts p. if p = [Fin (1/2), Fin (1/2)] then 0 else - 1)\<rparr>"

definition failing_externals :: externals where
  "failing_externals =
     \<lparr>gp_predict = (\<lambda>g p. Inl ValueError),
      gp_optimize = (\<lambda>g. g),
      find_simplex = (\<lambda>pts p. - 1)\<rparr>"

definition demo_model :: model where
  "demo_model = [''mF'' \<mapsto> Fin 1, ''Delta2_p'' \<mapsto> Fin 10]"

definition far_model :: model where
  "far_model = [''mF'' \<mapsto> Fin 401, ''Delta2_p'' \<mapsto> Fin 10]"






text \<open>An emulator on the single parameter \<open>mF\<close>, with training values 1 and 3.\<close>

definition line_emulator :: emulator where
  "line_emulator =
     demo_emulator\<lparr>paramList := [''mF''], paramLimits := [(Fin 1, Fin 3)],
                    X_param_grid := [[Fin 0], [Fin 1]], hull_tri := [[Fin 0], [Fin 1]]\<rparr>"

text \<open>
  A linear emulator with three interpolators, a model with the seven parameters, and a
  stand-in for \<open>PolyP1D.P_Mpc\<close> that shows the coefficients it is given.
\<close>

definition demo_linear :: linear_emulator where
  "demo_linear =
     \<lparr>le_verbose = False,
      le_arxiv_fits = [\<lparr>lnP_fit = [Fin 1, Fin 2, Fin 3], kmin_Mpc = Fin (1/1000)\<rparr>],
      linterps = [(\<lambda>p. Fin 10), (\<lambda>p. Fin 20), (\<lambda>p. Fin 30)]\<rparr>"

definition seven_model :: model where
  "seven_model =
     [''Delta2_p'' \<mapsto> Fin 1, ''n_p'' \<mapsto> Fin 2, ''alpha_p'' \<mapsto> Fin 3, ''f_p'' \<mapsto> Fin 4,
      ''mF'' \<mapsto> Fin 5, ''sigT_Mpc'' \<mapsto> Fin 6, ''gamma'' \<mapsto> Fin 7]"

definition show_coeffs :: "poly_p1d \<Rightarrow> ndarray1 \<Rightarrow> ndarray1" where
  "show_coeffs p k = lnP_fit p"

section \<open>Arithmetic on finite values\<close>

lemma np_sub_Fin: "np_sub (Fin a) (Fin b) = Fin (a - b)"
  by (simp add: np_sub_def)

lemma foldl_np_add_Fin: "foldl np_add (Fin a) (map Fin xs) = Fin (a + sum_list xs)"
  by (induction xs arbitrary: a) (simp_all add: add.assoc)

lemma Min_insert_min:
  assumes "finite D"
  shows "Min (insert (min d s) D) = Min (insert s (insert d D))"
proof (cases "D = {}")
  case True
  then show ?thesis by (simp add: min.commute)
next
  case False
  then show ?thesis using assms by (simp add: min.assoc min.left_commute min.commute)
qed

section \<open>Prediction before training\<close>

text \<open>
  C3. When the trained flag is false, \<open>predict\<close> reports the condition (it prints one
  line), returns \<open>None\<close> in place of the pair of values and uncertainties, and leaves the
  emulator as it was. This holds for every GP object and every behaviour of the library
  calls, so the Gaussian process is not evaluated.
\<close>

theorem predict_untrained:
  "\<not> trained e \<Longrightarrow>
     predict ext e m
       = Inr (None, e, [Print ''Emulator not trained, cannot make a prediction''])"
  by (simp add: predict_def)

theorem predict_untrained_witness:
  "\<not> trained (demo_emulator\<lparr>trained := False\<rparr>)
   \<and> predict failing_externals (demo_emulator\<lparr>trained := False\<rparr>) demo_model
       = Inr (None, demo_emulator\<lparr>trained := False\<rparr>,
              [Print ''Emulator not trained, cannot make a prediction''])"
  using predict_untrained
    [of "demo_emulator\<lparr>trained := False\<rparr>" failing_externals demo_model]
  by simp

section \<open>The coefficient order of the linear emulator\<close>

lemma lookup_all_Inr:
  "set pars \<subseteq> dom m \<Longrightarrow> lookup_all m pars = Inr (map (the \<circ> m) pars)"
  by (induction pars) (auto simp: getitem_def)

lemma fill_coeffs_prefix:
  assumes "length c = length interps" "k \<le> length interps"
  shows "foldl (\<lambda>c i. c[length interps - i - 1 := (interps ! i) point]) c [0..<k]
       = take (length interps - k) c @ rev (map (\<lambda>f. f point) (take k interps))"
  using assms(2)
proof (induction k)
  case 0
  then show ?case using assms(1) by simp
next
  case (Suc k)
  let ?n = "length interps"
  have k: "k < ?n" using Suc.prems by simp
  have split: "?n - k = Suc (?n - Suc k)" using k by simp
  have upd: "(take (?n - k) c)[?n - Suc k := v] = take (?n - Suc k) c @ [v]" for v
  proof -
    have "take (?n - k) c = take (?n - Suc k) c @ [c ! (?n - Suc k)]"
      unfolding split using k assms(1) by (simp add: take_Suc_conv_app_nth)
    then show ?thesis using assms(1) k by (simp add: list_update_append)
  qed
  have tk: "take (Suc k) interps = take k interps @ [interps ! k]"
    using k by (simp add: take_Suc_conv_app_nth)
  have len: "length (take (?n - k) c) = ?n - k" using assms(1) by simp
  have pos: "?n - Suc k < ?n - k" using k by simp
  show ?case
    using Suc.IH k len pos by (simp add: list_update_append upd tk)
qed

lemma fill_coeffs_rev:
  "length c = length interps \<Longrightarrow>
     fill_coeffs interps point c = rev (map (\<lambda>f. f point) interps)"
  using fill_coeffs_prefix [of c interps "length interps" point]
  by (simp add: fill_coeffs_def)

text \<open>
  C8. For a model that has the seven parameters, \<open>emulate_p1d_Mpc\<close> evaluates every
  interpolator at the query point, puts the output of interpolator \<open>i\<close> at coefficient
  index \<open>Npar - i - 1\<close> (so the coefficient vector is the interpolator outputs in
  reverse order, whatever the uninitialised array held), builds the reconstruction object
  from this vector and the archive's \<open>kmin_Mpc\<close>, and returns its \<open>P_Mpc\<close> at the
  requested wavenumbers.
\<close>

theorem emulate_p1d_Mpc_reverse_order:
  assumes "set point_keys \<subseteq> dom m"
    and "le_arxiv_fits le = fit0 # fits"
  shows "map_sum id fst (emulate_p1d_Mpc P_Mpc garbage le m k_Mpc)
           = Inr (P_Mpc \<lparr>lnP_fit = rev (map (\<lambda>f. f (map (the \<circ> m) point_keys)) (linterps le)),
                         kmin_Mpc = kmin_Mpc fit0\<rparr> k_Mpc)
         \<and> (\<forall>i<length (linterps le).
               rev (map (\<lambda>f. f (map (the \<circ> m) point_keys)) (linterps le))
                   ! (length (linterps le) - i - 1)
                 = (linterps le ! i) (map (the \<circ> m) point_keys))"
proof -
  let ?point = "map (the \<circ> m) point_keys"
  let ?coeffs = "rev (map (\<lambda>f. f ?point) (linterps le))"
  have p: "point_from_model m = Inr ?point"
    using assms(1) by (simp add: point_from_model_def lookup_all_Inr)
  have c: "fill_coeffs (linterps le) ?point (map garbage [0..<length (linterps le)]) = ?coeffs"
    by (rule fill_coeffs_rev) simp
  have run: "map_sum id fst (emulate_p1d_Mpc P_Mpc garbage le m k_Mpc)
      = Inr (P_Mpc \<lparr>lnP_fit = ?coeffs, kmin_Mpc = kmin_Mpc fit0\<rparr> k_Mpc)"
    using assms(2) by (simp add: emulate_p1d_Mpc_def p c Let_def)
  have idx: "?coeffs ! (length (linterps le) - i - 1) = (linterps le ! i) ?point"
    if "i < length (linterps le)" for i
    using that by (simp add: rev_nth)
  show ?thesis using run idx by blast
qed

theorem emulate_p1d_Mpc_reverse_order_witness:
  "set point_keys \<subseteq> dom seven_model
   \<and> le_arxiv_fits demo_linear = [\<lparr>lnP_fit = [Fin 1, Fin 2, Fin 3], kmin_Mpc = Fin (1/1000)\<rparr>]
   \<and> map_sum id fst (emulate_p1d_Mpc show_coeffs (\<lambda>i. NaN) demo_linear seven_model [Fin 1])
       = Inr [Fin 30, Fin 20, Fin 10]"
  using emulate_p1d_Mpc_reverse_order
    [of seven_model demo_linear "\<lparr>lnP_fit = [Fin 1, Fin 2, Fin 3], kmin_Mpc = Fin (1/1000)\<rparr>"
        "[]" show_coeffs "\<lambda>i. NaN" "[Fin 1]"]
  by (simp add: point_keys_def seven_model_def demo_linear_def show_coeffs_def)

section \<open>The nearest training point\<close>

lemma sum_list_sq_diff:
  "length r = length q \<Longrightarrow>
     sum_list (map2 (\<lambda>a b. (a - b)\<^sup>2) r q) = (\<Sum>i<length q. (r ! i - q ! i)\<^sup>2)"
proof (induction r q rule: list_induct2)
  case Nil
  then show ?case by simp
next
  case (Cons x xs y ys)
  then show ?case
    by (simp add: sum.lessThan_Suc_shift del: sum.lessThan_Suc)
qed

lemma euclid_Fin:
  assumes "length r = length q"
  shows "euclid (map Fin r) (map Fin q) = Inr (Fin (euclid_dist r q))"
proof -
  have b: "broadcast2 np_sub (map Fin r) (map Fin q)
      = Inr (map2 np_sub (map Fin r) (map Fin q))"
    using assms by (simp add: broadcast2_def)
  have sq: "map (\<lambda>v. np_mul v v) (map2 np_sub (map Fin r) (map Fin q))
      = map Fin (map2 (\<lambda>a b. (a - b)\<^sup>2) r q)"
    using assms
    by (induction r q rule: list_induct2) (simp_all add: np_sub_Fin power2_eq_square)
  have nonneg: "0 \<le> (\<Sum>i<length q. (r ! i - q ! i)\<^sup>2)"
    by (simp add: sum_nonneg)
  have fin: "np_sqrt (foldl np_add (Fin 0) (map Fin (map2 (\<lambda>a b. (a - b)\<^sup>2) r q)))
      = Fin (euclid_dist r q)"
    unfolding foldl_np_add_Fin sum_list_sq_diff [OF assms] euclid_dist_def
    using nonneg by simp
  have "euclid (map Fin r) (map Fin q)
      = Inr (np_sqrt (foldl np_add (Fin 0)
               (map (\<lambda>v. np_mul v v) (map2 np_sub (map Fin r) (map Fin q)))))"
    unfolding euclid_def b by (simp only: sum.case)
  also have "\<dots> = Inr (Fin (euclid_dist r q))"
    by (simp only: sq fin)
  finally show ?thesis .
qed

lemma nearest_loop_Fin:
  assumes "\<forall>r\<in>set G. length r = length q"
  shows "nearest_loop (map (map Fin) G) (map Fin q) (Fin s)
       = Inr (Fin (Min (insert s ((\<lambda>r. euclid_dist r q) ` set G))))"
  using assms
proof (induction G arbitrary: s)
  case Nil
  then show ?case by simp
next
  case (Cons r G)
  have e: "euclid (map Fin r) (map Fin q) = Inr (Fin (euclid_dist r q))"
    using Cons.prems by (simp add: euclid_Fin)
  have s': "(if np_lt (Fin (euclid_dist r q)) (Fin s) then Fin (euclid_dist r q) else Fin s)
      = Fin (min (euclid_dist r q) s)"
    by (simp add: min_def)
  have "nearest_loop (map (map Fin) (r # G)) (map Fin q) (Fin s)
      = nearest_loop (map (map Fin) G) (map Fin q) (Fin (min (euclid_dist r q) s))"
    using e s' by simp
  also have "\<dots> = Inr (Fin (Min (insert (min (euclid_dist r q) s) ((\<lambda>r. euclid_dist r q) ` set G))))"
    using Cons.IH Cons.prems by simp
  also have "Min (insert (min (euclid_dist r q) s) ((\<lambda>r. euclid_dist r q) ` set G))
      = Min (insert s ((\<lambda>r. euclid_dist r q) ` set (r # G)))"
    using Min_insert_min [of "(\<lambda>r. euclid_dist r q) ` set G" "euclid_dist r q" s] by simp
  finally show ?case .
qed

text \<open>
  C10. The running minimum of \<open>get_nearest_distance\<close> starts at 99.99 and is replaced
  only by a strictly smaller distance. So, for a query whose rescaled point \<open>q\<close> is
  finite and a finite rescaled grid \<open>G\<close>, the result is the least of 99.99 and the
  Euclidean distances from \<open>q\<close> to the rows, that is \<open>min(99.99, nearest distance)\<close>; and
  when every row is at distance 99.99 or more, the result is 99.99.
\<close>

theorem get_nearest_distance_sentinel:
  assumes "return_unit_call e m = Inr (map Fin q)"
    and "X_param_grid e = map (map Fin) G"
    and "\<forall>r\<in>set G. length r = length q"
  shows "get_nearest_distance e m
           = Inr (Fin (Min (insert (9999 / 100) ((\<lambda>r. euclid_dist r q) ` set G))))
       \<and> (G \<noteq> [] \<longrightarrow> get_nearest_distance e m
           = Inr (Fin (min (9999 / 100) (Min ((\<lambda>r. euclid_dist r q) ` set G)))))
       \<and> ((\<forall>r\<in>set G. 9999 / 100 \<le> euclid_dist r q) \<longrightarrow>
            get_nearest_distance e m = Inr (Fin (9999 / 100)))"
proof -
  have main: "get_nearest_distance e m
      = Inr (Fin (Min (insert (9999 / 100) ((\<lambda>r. euclid_dist r q) ` set G))))"
    using assms nearest_loop_Fin [of G q "9999 / 100"]
    by (simp add: get_nearest_distance_def return_unit_call_def)
  have two: "G \<noteq> [] \<Longrightarrow> Min (insert (9999 / 100) ((\<lambda>r. euclid_dist r q) ` set G))
      = min (9999 / 100) (Min ((\<lambda>r. euclid_dist r q) ` set G))"
    by simp
  have three: "\<forall>r\<in>set G. 9999 / 100 \<le> euclid_dist r q \<Longrightarrow>
      Min (insert (9999 / 100) ((\<lambda>r. euclid_dist r q) ` set G)) = 9999 / 100"
    by (intro Min_eqI) auto
  show ?thesis using main two three by simp
qed

theorem get_nearest_distance_sentinel_witness:
  "return_unit_call demo_emulator demo_model = Inr (map Fin [0, 0])
   \<and> X_param_grid demo_emulator = map (map Fin) [[0, 0], [1/2, 1], [1, 1/2]]
   \<and> get_nearest_distance demo_emulator demo_model
       = Inr (Fin (min (9999 / 100)
           (Min ((\<lambda>r. euclid_dist r [0, 0]) ` set [[0, 0], [1/2, 1], [1, 1/2]]))))"
  using get_nearest_distance_sentinel
    [of demo_emulator demo_model "[0, 0]" "[[0, 0], [1/2, 1], [1, 1/2]]"]
  by (simp add: return_unit_call_def demo_emulator_def demo_model_def getitem_def
      rescale1_def np_sub_def demo_grid_def)

lemma sqrt_40000: "sqrt 40000 = 200"
  by (rule real_sqrt_unique) simp_all

lemma sqrt_39601: "sqrt 39601 = 199"
  by (rule real_sqrt_unique) simp_all

text \<open>
  C9. The claim that \<open>get_nearest_distance\<close> returns the distance to the closest
  training row fails for a query far from the grid. On the one-parameter emulator with
  limits (1, 3) and rescaled rows 0 and 1, the model \<open>mF = 401\<close> rescales to 200; the
  rows are at distances 200 and 199, and the result is the initial value 99.99.
\<close>

theorem get_nearest_distance_far_query:
  "return_unit_call line_emulator far_model = Inr [Fin 200]
   \<and> X_param_grid line_emulator = [[Fin 0], [Fin 1]]
   \<and> euclid [Fin 0] [Fin 200] = Inr (Fin 200)
   \<and> euclid [Fin 1] [Fin 200] = Inr (Fin 199)
   \<and> get_nearest_distance line_emulator far_model = Inr (Fin (9999 / 100))"
  by (simp add: return_unit_call_def get_nearest_distance_def line_emulator_def
      demo_emulator_def far_model_def getitem_def rescale1_def np_sub_def euclid_def
      broadcast2_def sqrt_40000 sqrt_39601)

section \<open>Rescaling the training grid to the unit cube\<close>












lemma rescale_params_Inr:
  "length params \<le> length L \<Longrightarrow> rescale_params params L = Inr (map2 rescale1 params L)"
proof (induction params L rule: rescale_params.induct)
  case (1 paramLimits)
  then show ?case by simp
next
  case (2 p params)
  then show ?case by simp
next
  case (3 p params lh paramLimits)
  then show ?case by simp
qed

lemma rescale_grid_Inr:
  "\<forall>row\<in>set X. length row \<le> length L \<Longrightarrow>
     rescale_grid X L = Inr (map (\<lambda>row. map2 rescale1 row L) X)"
  by (induction X) (simp_all add: rescale_params_Inr)

lemma rescale_model_Inr:
  "set pl \<subseteq> dom m \<Longrightarrow> length pl \<le> length L \<Longrightarrow>
     rescale_model pl L m = Inr (map2 rescale1 (map (the \<circ> m) pl) L)"
proof (induction pl arbitrary: L)
  case Nil
  then show ?case by simp
next
  case (Cons par pars)
  then obtain lh lhs where L: "L = lh # lhs" by (cases L) auto
  obtain v where v: "m par = Some v" using Cons.prems(1) by auto
  have "rescale_model pars lhs m = Inr (map2 rescale1 (map (the \<circ> m) pars) lhs)"
    using Cons.prems L by (intro Cons.IH) auto
  then show ?case by (simp add: L v getitem_def comp_def)
qed

lemma normalise_Inr:
  "\<forall>row\<in>set Y. length row = length sf \<Longrightarrow>
     normalise Y sf
       = Inr (map (\<lambda>row. map (\<lambda>v. np_sub v (Fin 1)) (map2 np_div row sf)) Y)"
  by (induction Y) (simp_all add: broadcast2_def)

lemma length_median_axis0:
  "Y \<noteq> [] \<Longrightarrow> \<forall>row\<in>set Y. length row = k \<Longrightarrow> length (median_axis0 Y) = k"
  by (cases Y) (simp_all add: median_axis0_def)

lemma normalise_median_Inr:
  assumes "\<forall>row\<in>set Y. length row = k"
  shows "normalise Y (median_axis0 Y)
       = Inr (map (\<lambda>row. map (\<lambda>v. np_sub v (Fin 1)) (map2 np_div row (median_axis0 Y))) Y)"
proof (cases "Y = []")
  case True
  then show ?thesis by simp
next
  case False
  then have "length (median_axis0 Y) = k" using assms by (rule length_median_axis0)
  then show ?thesis using assms by (intro normalise_Inr) simp
qed









section \<open>Rescaling with a zero-range parameter\<close>







section \<open>Scale factors, normalised targets and de-normalised predictions\<close>

lemma build_interp_Inr:
  assumes lim: "(case la of None \<Rightarrow> get_param_limits X | Some l \<Rightarrow> Inr l) = Inr L"
    and rows: "\<forall>row\<in>set X. length row \<le> length L"
    and Y: "\<forall>row\<in>set Ypoints. length row = k"
  shows "build_interp e la X Ypoints
       = Inr (e\<lparr>X_param_grid := map (\<lambda>row. map2 rescale1 row L) X,
                paramLimits := L,
                scalefactors := median_axis0 Ypoints,
                gp := \<lparr>gp_X = map (\<lambda>row. map2 rescale1 row L) X,
                        gp_Y = map (\<lambda>row. map (\<lambda>v. np_sub v (Fin 1))
                                         (map2 np_div row (median_axis0 Ypoints))) Ypoints,
                        gp_input_dim = length (paramList e),
                        gp_ARD = asymmetric_kernel e,
                        gp_noise_var = Fin (emu_noise e),
                        gp_param_array = []\<rparr>\<rparr>)"
  by (simp add: build_interp_def lim rescale_grid_Inr [OF rows] normalise_median_Inr [OF Y])

lemma median_axis0_nth:
  assumes "Y \<noteq> []" "\<forall>row\<in>set Y. length row = k" "j < k"
  shows "median_axis0 Y ! j = np_median (column Y j)"
  using assms by (cases Y) (simp_all add: median_axis0_def)

lemma broadcast2_same:
  "length xs = length ys \<Longrightarrow> broadcast2 f xs ys = Inr (map2 f xs ys)"
  by (simp add: broadcast2_def)

lemma broadcast2_single:
  "length xs = 1 \<Longrightarrow> broadcast2 f xs ys = Inr (map (f (xs ! 0)) ys)"
proof -
  assume l: "length xs = 1"
  then obtain a where xs: "xs = [a]" by (cases xs) auto
  show ?thesis
  proof (cases "length ys = 1")
    case True
    then obtain b where "ys = [b]" by (cases ys) auto
    then show ?thesis by (simp add: broadcast2_def xs)
  next
    case False
    then show ?thesis by (simp add: broadcast2_def xs)
  qed
qed

lemma predict_uncs:
  assumes "length var = length sf \<or> length var = 1"
  shows "\<exists>uncs. broadcast2 np_mul (map np_sqrt var) sf = Inr uncs \<and> length uncs = length sf
           \<and> (\<forall>j<length sf.
                 uncs ! j = np_mul (np_sqrt (var ! (if length var = 1 then 0 else j))) (sf ! j))"
proof (cases "length var = 1")
  case True
  then have "broadcast2 np_mul (map np_sqrt var) sf = Inr (map (np_mul (map np_sqrt var ! 0)) sf)"
    by (intro broadcast2_single) simp
  then show ?thesis using True by simp
next
  case False
  then have l: "length var = length sf" using assms by simp
  then have "broadcast2 np_mul (map np_sqrt var) sf = Inr (map2 np_mul (map np_sqrt var) sf)"
    by (intro broadcast2_same) simp
  then show ?thesis using False l by simp
qed

lemma predict_trained:
  assumes tr: "trained e"
    and rm: "rescale_model (paramList e) (paramLimits e) m = Inr param"
    and gp: "gp_predict ext (gp e) param = Inr (mean, var)"
    and vals: "broadcast2 np_mul (map (\<lambda>v. np_add v (Fin 1)) mean) (scalefactors e) = Inr vals"
    and uncs: "broadcast2 np_mul (map np_sqrt var) (scalefactors e) = Inr uncs"
  shows "predict ext e m
       = Inr (Some (vals, uncs), e,
              (if checkHulls e \<and> find_simplex ext (hull_tri e) param < 0
               then [PrintModel ''Model is outside convex hull:'' m] else [])
              @ (if crossval e
                    \<and> length (filter (\<lambda>p. list_ex (np_eq p) (concat (X_param_grid e))) param)
                        = length param
                 then [Print ''Emulator call is inside training set!!!''] else []))"
  using tr by (simp add: predict_def rm gp vals uncs Let_def)

text \<open>
  C4. Whenever the parameter part of \<open>_build_interp\<close> goes through (limits given or
  taken from the grid, no grid row longer than the limits table), it stores as
  \<open>scalefactors\<close> the median of each column of the target matrix \<open>Y\<close> and builds the GP
  object, which \<open>train\<close> then optimises, on the targets \<open>Y / scalefactors - 1\<close>, entry by
  entry. And for a trained emulator, a model with the \<open>paramList\<close> keys and a GP
  posterior (mean row, variance row) of the shapes GPy returns, \<open>predict\<close> returns
  \<open>(mean + 1) * scalefactor\<close> and \<open>sqrt(variance) * scalefactor\<close> per target column; a
  single variance is shared by all columns, as numpy broadcasting does.
\<close>

theorem scalefactors_median_and_denormalise:
  assumes lim: "(case la of None \<Rightarrow> get_param_limits X | Some l \<Rightarrow> Inr l) = Inr L"
    and rows: "\<forall>row\<in>set X. length row \<le> length L"
    and Yne: "Ypoints \<noteq> []"
    and Y: "\<forall>row\<in>set Ypoints. length row = k"
    and tr: "trained q"
    and keys: "set (paramList q) \<subseteq> dom m"
    and lens: "length (paramList q) \<le> length (paramLimits q)"
    and gp: "gp_predict ext (gp q)
               (map2 rescale1 (map (the \<circ> m) (paramList q)) (paramLimits q)) = Inr (mean, var)"
    and lmean: "length mean = length (scalefactors q)"
    and lvar: "length var = length (scalefactors q) \<or> length var = 1"
  shows "(\<exists>e'. build_interp e la X Ypoints = Inr e'
            \<and> length (scalefactors e') = k
            \<and> (\<forall>j<k. scalefactors e' ! j = np_median (column Ypoints j))
            \<and> length (gp_Y (gp e')) = length Ypoints
            \<and> (\<forall>i<length Ypoints. \<forall>j<k.
                  gp_Y (gp e') ! i ! j
                    = np_sub (np_div (Ypoints ! i ! j) (scalefactors e' ! j)) (Fin 1))
            \<and> gp (fst (train ext e')) = gp_optimize ext (gp e'))
       \<and> (\<exists>vals uncs. map_sum id fst (predict ext q m) = Inr (Some (vals, uncs))
            \<and> length vals = length (scalefactors q)
            \<and> length uncs = length (scalefactors q)
            \<and> (\<forall>j<length (scalefactors q).
                  vals ! j = np_mul (np_add (mean ! j) (Fin 1)) (scalefactors q ! j)
                  \<and> uncs ! j = np_mul (np_sqrt (var ! (if length var = 1 then 0 else j)))
                                 (scalefactors q ! j)))"
proof (rule conjI)
  let ?sf = "median_axis0 Ypoints"
  let ?norm = "map (\<lambda>row. map (\<lambda>v. np_sub v (Fin 1)) (map2 np_div row ?sf)) Ypoints"
  obtain e' where b: "build_interp e la X Ypoints = Inr e'"
    and sf: "scalefactors e' = ?sf" and gy: "gp_Y (gp e') = ?norm"
    using build_interp_Inr [OF lim rows Y, of e] by simp
  have lsf: "length ?sf = k" using Yne Y by (rule length_median_axis0)
  have med: "?sf ! j = np_median (column Ypoints j)" if "j < k" for j
    using Yne Y that by (rule median_axis0_nth)
  have norm: "?norm ! i ! j = np_sub (np_div (Ypoints ! i ! j) (?sf ! j)) (Fin 1)"
    if "i < length Ypoints" "j < k" for i j
  proof -
    have "length (Ypoints ! i) = k" using that(1) Y by simp
    then show ?thesis using that lsf by simp
  qed
  have tr': "gp (fst (train ext e')) = gp_optimize ext (gp e')"
    by (simp add: train_def)
  have c1: "length (scalefactors e') = k" by (simp only: sf lsf)
  have c2: "\<forall>j<k. scalefactors e' ! j = np_median (column Ypoints j)"
    using med by (simp only: sf) blast
  have c3: "length (gp_Y (gp e')) = length Ypoints" by (simp only: gy length_map)
  have c4: "\<forall>i<length Ypoints. \<forall>j<k.
      gp_Y (gp e') ! i ! j = np_sub (np_div (Ypoints ! i ! j) (scalefactors e' ! j)) (Fin 1)"
    using norm by (simp only: sf gy) blast
  show "\<exists>e'. build_interp e la X Ypoints = Inr e'
            \<and> length (scalefactors e') = k
            \<and> (\<forall>j<k. scalefactors e' ! j = np_median (column Ypoints j))
            \<and> length (gp_Y (gp e')) = length Ypoints
            \<and> (\<forall>i<length Ypoints. \<forall>j<k.
                  gp_Y (gp e') ! i ! j
                    = np_sub (np_div (Ypoints ! i ! j) (scalefactors e' ! j)) (Fin 1))
            \<and> gp (fst (train ext e')) = gp_optimize ext (gp e')"
    by (rule exI [of _ e']) (use b c1 c2 c3 c4 tr' in blast)
next
  let ?sf = "scalefactors q"
  let ?param = "map2 rescale1 (map (the \<circ> m) (paramList q)) (paramLimits q)"
  let ?vals = "map2 np_mul (map (\<lambda>v. np_add v (Fin 1)) mean) ?sf"
  have rm: "rescale_model (paramList q) (paramLimits q) m = Inr ?param"
    using keys lens by (rule rescale_model_Inr)
  have v: "broadcast2 np_mul (map (\<lambda>v. np_add v (Fin 1)) mean) ?sf = Inr ?vals"
    using lmean by (intro broadcast2_same) simp
  obtain uncs where u: "broadcast2 np_mul (map np_sqrt var) ?sf = Inr uncs"
    and lu: "length uncs = length ?sf"
    and uj: "\<And>j. j < length ?sf \<Longrightarrow>
           uncs ! j = np_mul (np_sqrt (var ! (if length var = 1 then 0 else j))) (?sf ! j)"
    using predict_uncs [OF lvar] by blast
  have p: "map_sum id fst (predict ext q m) = Inr (Some (?vals, uncs))"
    by (simp add: predict_trained [OF tr rm gp v u])
  have lv: "length ?vals = length ?sf" using lmean by simp
  have vj: "?vals ! j = np_mul (np_add (mean ! j) (Fin 1)) (?sf ! j)" if "j < length ?sf" for j
    using that lmean by simp
  show "\<exists>vals uncs. map_sum id fst (predict ext q m) = Inr (Some (vals, uncs))
            \<and> length vals = length ?sf
            \<and> length uncs = length ?sf
            \<and> (\<forall>j<length ?sf.
                  vals ! j = np_mul (np_add (mean ! j) (Fin 1)) (?sf ! j)
                  \<and> uncs ! j = np_mul (np_sqrt (var ! (if length var = 1 then 0 else j)))
                                 (?sf ! j))"
    by (rule exI [of _ ?vals], rule exI [of _ uncs]) (use p lv lu vj uj in blast)
qed

theorem scalefactors_median_and_denormalise_witness:
  "raw_targets \<noteq> []
   \<and> list_all (\<lambda>row. length row = 2) raw_targets
   \<and> trained demo_emulator
   \<and> set (paramList demo_emulator) \<subseteq> dom demo_model
   \<and> map_sum id scalefactors (build_interp demo_emulator None raw_grid raw_targets)
       = Inr [Fin 4, Fin 8]
   \<and> map_sum id (\<lambda>e. gp_Y (gp e)) (build_interp demo_emulator None raw_grid raw_targets)
       = Inr [[Fin (- 1/2), Fin (- 1/2)], [Fin 0, Fin 0], [Fin (1/2), Fin (1/2)]]
   \<and> gp_predict demo_externals (gp demo_emulator) [Fin 0, Fin 0]
       = Inr ([Fin 0, Fin (1/2)], [Fin 4])
   \<and> map_sum id fst (predict demo_externals demo_emulator demo_model)
       = Inr (Some ([Fin 4, Fin 12], [Fin 8, Fin 16]))"
  using scalefactors_median_and_denormalise
    [where la = None and X = raw_grid and L = "[(Fin 1, Fin 3), (Fin 10, Fin 30)]"
       and Ypoints = raw_targets and k = 2 and q = demo_emulator and m = demo_model
       and ext = demo_externals and mean = "[Fin 0, Fin (1/2)]" and var = "[Fin 4]"
       and e = demo_emulator]
  by (simp add: build_interp_def raw_grid_def raw_targets_def get_param_limits_def
      column_def np_gt_def rescale1_def np_sub_def median_axis0_def np_median_def
      np_sort_def broadcast2_def demo_emulator_def demo_gp_def demo_grid_def
      demo_model_def demo_externals_def predict_def getitem_def)

section \<open>Queries outside the convex hull\<close>

lemma np_mul_finite: "is_Fin a \<Longrightarrow> is_Fin b \<Longrightarrow> is_Fin (np_mul a b)"
  by (cases a; cases b) simp_all

lemma np_add_finite: "is_Fin a \<Longrightarrow> is_Fin b \<Longrightarrow> is_Fin (np_add a b)"
  by (cases a; cases b) simp_all

lemma np_sqrt_finite: "is_Fin a \<Longrightarrow> 0 \<le> val a \<Longrightarrow> is_Fin (np_sqrt a)"
  by (cases a) simp_all

lemma broadcast2_finite:
  assumes "broadcast2 np_mul xs ys = Inr zs"
    and "\<forall>x\<in>set xs. is_Fin x" and "\<forall>y\<in>set ys. is_Fin y"
  shows "\<forall>z\<in>set zs. is_Fin z"
proof -
  consider "length xs = length ys" | "length xs \<noteq> length ys" "length xs = 1"
    | "length xs \<noteq> length ys" "length xs \<noteq> 1" "length ys = 1"
    | "length xs \<noteq> length ys" "length xs \<noteq> 1" "length ys \<noteq> 1"
    by blast
  then show ?thesis
  proof cases
    case 1
    then have "zs = map2 np_mul xs ys" using assms(1) by (simp add: broadcast2_def)
    then show ?thesis
      using assms(2,3) by (auto intro!: np_mul_finite dest: set_zip_leftD set_zip_rightD)
  next
    case 2
    then have zs: "zs = map (np_mul (hd xs)) ys" using assms(1) by (simp add: broadcast2_def)
    have "hd xs \<in> set xs" using 2(2) by (cases xs) auto
    then show ?thesis using assms(2,3) by (auto simp: zs np_mul_finite)
  next
    case 3
    then have zs: "zs = map (\<lambda>x. np_mul x (hd ys)) xs" using assms(1) by (simp add: broadcast2_def)
    have "hd ys \<in> set ys" using 3(3) by (cases ys) auto
    then show ?thesis using assms(2,3) by (auto simp: zs np_mul_finite)
  next
    case 4
    then show ?thesis using assms(1) by (simp add: broadcast2_def)
  qed
qed

text \<open>
  C7. For a trained emulator and a model with the \<open>paramList\<close> keys, whatever the
  parameter values are and whatever \<open>find_simplex\<close> answers, \<open>predict\<close> raises nothing
  and returns a pair of values and uncertainties, one per target column, as long as the
  GP posterior is returned: the hull test only adds the line "Model is outside convex
  hull:" to the output, and the pair is the one that \<open>predict\<close> returns with the hull
  check switched off. The pair is finite when the posterior mean, the variance
  (non-negative) and the scale factors are.
\<close>

theorem predict_outside_hull_not_aborted:
  assumes tr: "trained e"
    and keys: "set (paramList e) \<subseteq> dom m"
    and lens: "length (paramList e) \<le> length (paramLimits e)"
    and gp: "gp_predict ext (gp e)
               (map2 rescale1 (map (the \<circ> m) (paramList e)) (paramLimits e)) = Inr (mean, var)"
    and lmean: "length mean = length (scalefactors e)"
    and lvar: "length var = length (scalefactors e) \<or> length var = 1"
  shows "\<exists>vals uncs out.
           predict ext e m
             = Inr (Some (vals, uncs), e,
                    (if checkHulls e
                        \<and> find_simplex ext (hull_tri e)
                             (map2 rescale1 (map (the \<circ> m) (paramList e)) (paramLimits e)) < 0
                     then [PrintModel ''Model is outside convex hull:'' m] else []) @ out)
         \<and> predict ext (e\<lparr>checkHulls := False\<rparr>) m
             = Inr (Some (vals, uncs), e\<lparr>checkHulls := False\<rparr>, out)
         \<and> length vals = length (scalefactors e)
         \<and> length uncs = length (scalefactors e)
         \<and> ((\<forall>v\<in>set mean. is_Fin v) \<and> (\<forall>v\<in>set var. is_Fin v \<and> 0 \<le> val v)
               \<and> (\<forall>s\<in>set (scalefactors e). is_Fin s)
              \<longrightarrow> (\<forall>v\<in>set vals. is_Fin v) \<and> (\<forall>u\<in>set uncs. is_Fin u))"
proof -
  let ?sf = "scalefactors e"
  let ?param = "map2 rescale1 (map (the \<circ> m) (paramList e)) (paramLimits e)"
  let ?vals = "map2 np_mul (map (\<lambda>v. np_add v (Fin 1)) mean) ?sf"
  let ?out = "if crossval e
                 \<and> length (filter (\<lambda>p. list_ex (np_eq p) (concat (X_param_grid e))) ?param)
                     = length ?param
              then [Print ''Emulator call is inside training set!!!''] else []"
  have rm: "rescale_model (paramList e) (paramLimits e) m = Inr ?param"
    using keys lens by (rule rescale_model_Inr)
  have v: "broadcast2 np_mul (map (\<lambda>v. np_add v (Fin 1)) mean) ?sf = Inr ?vals"
    using lmean by (intro broadcast2_same) simp
  obtain uncs where u: "broadcast2 np_mul (map np_sqrt var) ?sf = Inr uncs"
    and lu: "length uncs = length ?sf"
    using predict_uncs [OF lvar] by blast
  have p1: "predict ext e m
      = Inr (Some (?vals, uncs), e,
             (if checkHulls e \<and> find_simplex ext (hull_tri e) ?param < 0
              then [PrintModel ''Model is outside convex hull:'' m] else []) @ ?out)"
    by (rule predict_trained [OF tr rm gp v u])
  have p2: "predict ext (e\<lparr>checkHulls := False\<rparr>) m
      = Inr (Some (?vals, uncs), e\<lparr>checkHulls := False\<rparr>, ?out)"
    using predict_trained [of "e\<lparr>checkHulls := False\<rparr>" m ?param ext mean var ?vals uncs]
      tr rm gp v u by simp
  have lv: "length ?vals = length ?sf" using lmean by simp
  have fin: "(\<forall>v\<in>set ?vals. is_Fin v) \<and> (\<forall>u\<in>set uncs. is_Fin u)"
    if m: "\<forall>v\<in>set mean. is_Fin v" and va: "\<forall>v\<in>set var. is_Fin v \<and> 0 \<le> val v"
      and s: "\<forall>s\<in>set ?sf. is_Fin s"
  proof
    have "\<forall>x\<in>set (map (\<lambda>v. np_add v (Fin 1)) mean). is_Fin x"
      using m by (simp add: np_add_finite)
    with v show "\<forall>v\<in>set ?vals. is_Fin v" using s by (rule broadcast2_finite)
    have "\<forall>x\<in>set (map np_sqrt var). is_Fin x"
      using va by (simp add: np_sqrt_finite)
    with u show "\<forall>u\<in>set uncs. is_Fin u" using s by (rule broadcast2_finite)
  qed
  show ?thesis
    by (rule exI [of _ ?vals], rule exI [of _ uncs], rule exI [of _ ?out])
       (use p1 p2 lv lu fin in blast)
qed

theorem predict_outside_hull_not_aborted_witness:
  "trained demo_emulator
   \<and> set (paramList demo_emulator) \<subseteq> dom far_model
   \<and> checkHulls demo_emulator
   \<and> find_simplex demo_externals (hull_tri demo_emulator) [Fin 200, Fin 0] < 0
   \<and> gp_predict demo_externals (gp demo_emulator) [Fin 200, Fin 0]
       = Inr ([Fin 0, Fin (1/2)], [Fin 4])
   \<and> predict demo_externals demo_emulator far_model
       = Inr (Some ([Fin 4, Fin 12], [Fin 8, Fin 16]), demo_emulator,
              [PrintModel ''Model is outside convex hull:'' far_model])"
  using predict_outside_hull_not_aborted
    [where e = demo_emulator and m = far_model and ext = demo_externals
       and mean = "[Fin 0, Fin (1/2)]" and var = "[Fin 4]"]
  by (simp add: rescale1_def np_sub_def broadcast2_def demo_emulator_def demo_gp_def
      demo_grid_def far_model_def demo_externals_def predict_def getitem_def)

end
